theory Spec2Isabelle
  imports Complex_Main "HOL-Library.Word" "HOL-Library.Signed_Division"
begin

section \<open>The shared ULP variables\<close>

text \<open>
  The variables \<open>ulp_xyz\<close> of \<open>ulp_main.h\<close> live in RTC slow memory and are shared by
  the ULP coprocessor and the main CPU. Each is a 32-bit word of which the ULP reads
  only the lower 16 bits (the comment of \<open>UlpProgram::start\<close>).
\<close>

type_synonym u16 = "16 word"
type_synonym u32 = "32 word"

record ulp_vars =
  ulp_edge_count :: u32
  ulp_run_count :: u32
  ulp_debounce_counter :: u32
  ulp_debounce_max_count :: u32
  ulp_next_edge :: u32
  ulp_io_number :: u32
  ulp_mean_exec_time :: u32

text \<open>
  \<open>UlpProgram::State\<close>: two 16-bit counters and a duration. A duration of the
  component's \<open>microseconds\<close> type is modelled by its count of microseconds.
\<close>

record State =
  edge_count :: u16
  run_count :: u16
  mean_exec_time :: int

subsection \<open>\<open>UlpProgram::peek_state\<close>, \<open>pop_state\<close> and \<open>set_mean_exec_time\<close>\<close>

definition peek_state :: "ulp_vars \<Rightarrow> State" where
  "peek_state v =
     (let edge_count' = (ucast (ulp_edge_count v) :: u16);
          run_count' = (ucast (ulp_run_count v) :: u16);
          mean_exec_time' = 1 * uint (ucast (ulp_mean_exec_time v) :: u16)
      in \<lparr>edge_count = edge_count', run_count = run_count', mean_exec_time = mean_exec_time'\<rparr>)"

definition pop_state :: "ulp_vars \<Rightarrow> State \<times> ulp_vars" where
  "pop_state v =
     (let state = peek_state v;
          v1 = v\<lparr>ulp_edge_count := 0\<rparr>;
          v2 = v1\<lparr>ulp_run_count := 0\<rparr>
      in (state, v2))"

text \<open>
  The argument is the count \<open>mean_exec_time / microseconds{1}\<close>; the cast to
  \<open>uint16_t\<close> keeps it modulo \<open>2 ^ 16\<close>, whatever the width of the count's type.
\<close>

definition set_mean_exec_time :: "int \<Rightarrow> ulp_vars \<Rightarrow> ulp_vars" where
  "set_mean_exec_time mean_exec_time_us v =
     v\<lparr>ulp_mean_exec_time := ucast (word_of_int mean_exec_time_us :: u16)\<rparr>"

section \<open>The platform\<close>

text \<open>
  The ESP-IDF services the component calls are not part of the repository. What they
  return is an input of the model (a \<open>platform\<close>); what the component asks of them is
  recorded, in order, in the \<open>calls\<close> of the \<open>world\<close>, next to the shared variables.

  \<open>clock_ticks_per_us\<close> stands for the period of the component's \<open>clock\<close>, which the
  header \<open>pulse_counter_ulp_sensor.h\<close> declares and which is not among the sources:
  time points and durations of \<open>clock\<close> are counts of ticks (\<open>int\<close>), and one
  microsecond is \<open>clock_ticks_per_us\<close> ticks (1000 for a nanosecond clock).
\<close>

type_synonym esp_err_t = int

definition ESP_OK :: esp_err_t where
  "ESP_OK = 0"

datatype esp_sleep_wakeup_cause_t =
    ESP_SLEEP_WAKEUP_UNDEFINED
  | ESP_SLEEP_WAKEUP_ALL
  | ESP_SLEEP_WAKEUP_EXT0
  | ESP_SLEEP_WAKEUP_EXT1
  | ESP_SLEEP_WAKEUP_TIMER
  | ESP_SLEEP_WAKEUP_TOUCHPAD
  | ESP_SLEEP_WAKEUP_ULP
  | ESP_SLEEP_WAKEUP_GPIO
  | ESP_SLEEP_WAKEUP_UART

record platform =
  ulp_load_binary :: esp_err_t
  ulp_run :: esp_err_t
  rtc_io_number_get :: "nat \<Rightarrow> int"
  rtc_gpio_is_valid_gpio :: "nat \<Rightarrow> bool"
  esp_sleep_get_wakeup_cause :: esp_sleep_wakeup_cause_t
  clock_ticks_per_us :: int

datatype call =
    ESP_LOGE string
  | Pin_setup nat
  | Ulp_load_binary
  | Rtc_gpio_init nat
  | Rtc_gpio_set_direction_input_only nat
  | Rtc_gpio_hold_en nat
  | Ulp_set_wakeup_period nat u32
  | Ulp_run

record world =
  vars :: ulp_vars
  calls :: "call list"

definition do_call :: "call \<Rightarrow> world \<Rightarrow> world" where
  "do_call c w = w\<lparr>calls := calls w @ [c]\<rparr>"

section \<open>\<open>UlpProgram::start\<close>\<close>

text \<open>
  Member names lose their trailing underscore (\<open>pin_\<close> is \<open>pin\<close>).
  \<open>Config\<close>: the pin number that \<open>pin_->get_pin()\<close> returns, the debounce count
  (16 bits, printed with \<open>PRIu16\<close>) and the sleep duration, as its count of
  microseconds (\<open>sleep_duration_ / microseconds{1}\<close>).
\<close>

record Config =
  pin :: nat
  debounce :: u16
  sleep_duration :: int

datatype UlpProgram = UlpProgram

text \<open>\<open>None\<close> is the \<open>nullptr\<close> that \<open>start\<close> returns on failure.\<close>

definition start :: "platform \<Rightarrow> Config \<Rightarrow> world \<Rightarrow> UlpProgram option \<times> world" where
  "start p cfg w =
     (let error = ulp_load_binary p;
          w1 = do_call Ulp_load_binary w
      in if error \<noteq> ESP_OK then
           (None, do_call (ESP_LOGE ''Loading ULP binary failed'') w1)
         else
           let gpio_num = pin cfg;
               rtcio_num = rtc_io_number_get p gpio_num;
               w2 = (if \<not> rtc_gpio_is_valid_gpio p gpio_num
                     then do_call (ESP_LOGE ''GPIO used for pulse counting must be an RTC IO'') w1
                     else w1);
               w3 = w2\<lparr>vars := (vars w2)
                      \<lparr>ulp_edge_count := 0,
                       ulp_run_count := 0,
                       ulp_debounce_counter := 3,
                       ulp_debounce_max_count := ucast (debounce cfg),
                       ulp_next_edge := 0,
                       ulp_io_number := word_of_int rtcio_num,
                       ulp_mean_exec_time := word_of_int (sleep_duration cfg)\<rparr>\<rparr>;
               w4 = do_call (Rtc_gpio_init gpio_num) w3;
               w5 = do_call (Rtc_gpio_set_direction_input_only gpio_num) w4;
               w6 = do_call (Rtc_gpio_hold_en gpio_num) w5;
               w7 = do_call (Ulp_set_wakeup_period 0 (word_of_int (sleep_duration cfg))) w6;
               error' = ulp_run p;
               w8 = do_call Ulp_run w7
           in if error' \<noteq> ESP_OK then
                (None, do_call (ESP_LOGE ''Starting ULP program failed'') w8)
              else (Some UlpProgram, w8))"

section \<open>\<open>PulseCounterUlpSensor\<close>\<close>

text \<open>
  A published value is a \<open>float\<close>: a binary32 number, an infinity or a NaN. A finite
  value is kept as the rational it denotes; the sign of a zero is not kept.
\<close>

datatype float_value = Finite rat | PlusInfinity | MinusInfinity | NaN

text \<open>
  Rounding to binary32, to the nearest value and to the even one of two nearest:
  \<open>binary_exponent x\<close> is the \<open>e\<close> with \<open>2 ^ e \<le> x < 2 ^ (e + 1)\<close> for a positive
  \<open>x\<close>, the significand has 24 bits, the least exponent is \<open>- 126\<close> (below it the
  values are subnormal), and a value that rounds to \<open>2 ^ 128\<close> or more is an infinity.
\<close>

definition pow2 :: "int \<Rightarrow> rat" where
  "pow2 e = (if 0 \<le> e then 2 ^ nat e else 1 / 2 ^ nat (- e))"

function bit_length :: "int \<Rightarrow> int" where
  "bit_length n = (if n \<le> 0 then 0 else 1 + bit_length (n div 2))"
  by auto
termination
  by (relation "measure nat") auto

declare bit_length.simps [simp del]

definition binary_exponent :: "rat \<Rightarrow> int" where
  "binary_exponent x =
     (if 1 \<le> x then bit_length \<lfloor>x\<rfloor> - 1
      else - bit_length (\<lceil>1 / x\<rceil> - 1))"

definition round_half_even :: "rat \<Rightarrow> int" where
  "round_half_even x =
     (let f = \<lfloor>x\<rfloor>; r = x - of_int f
      in if r < 1 / 2 then f
         else if 1 / 2 < r then f + 1
         else if even f then f else f + 1)"

definition round_to_binary32 :: "rat \<Rightarrow> float_value" where
  "round_to_binary32 x =
     (if x = 0 then Finite 0
      else
        let e = max (binary_exponent \<bar>x\<bar>) (- 126);
            q = pow2 (e - 23);
            y = of_int (round_half_even (\<bar>x\<bar> / q)) * q
        in if pow2 128 \<le> y then (if 0 < x then PlusInfinity else MinusInfinity)
           else Finite (sgn x * y))"

text \<open>
  The product and the quotient of two \<open>float\<close>s, each rounded once. A zero divisor
  stands for \<open>+0\<close>, the only zero that the conversion of an integer gives.
\<close>

definition float_sign :: "float_value \<Rightarrow> int" where
  "float_sign a =
     (case a of
        Finite x \<Rightarrow> (if x < 0 then - 1 else 1)
      | PlusInfinity \<Rightarrow> 1
      | MinusInfinity \<Rightarrow> - 1
      | NaN \<Rightarrow> 1)"

definition float_infinity :: "int \<Rightarrow> float_value" where
  "float_infinity s = (if s < 0 then MinusInfinity else PlusInfinity)"

definition float_times :: "float_value \<Rightarrow> float_value \<Rightarrow> float_value" where
  "float_times a b =
     (case (a, b) of
        (NaN, _) \<Rightarrow> NaN
      | (_, NaN) \<Rightarrow> NaN
      | (Finite x, Finite y) \<Rightarrow> round_to_binary32 (x * y)
      | (Finite x, _) \<Rightarrow> (if x = 0 then NaN else float_infinity (float_sign a * float_sign b))
      | (_, Finite y) \<Rightarrow> (if y = 0 then NaN else float_infinity (float_sign a * float_sign b))
      | (_, _) \<Rightarrow> float_infinity (float_sign a * float_sign b))"

definition float_divide :: "float_value \<Rightarrow> float_value \<Rightarrow> float_value" where
  "float_divide a b =
     (case (a, b) of
        (NaN, _) \<Rightarrow> NaN
      | (_, NaN) \<Rightarrow> NaN
      | (Finite x, Finite y) \<Rightarrow>
          (if y \<noteq> 0 then round_to_binary32 (x / y)
           else if x = 0 then NaN
           else float_infinity (float_sign a))
      | (Finite x, _) \<Rightarrow> Finite 0
      | (_, Finite y) \<Rightarrow> float_infinity (float_sign a * float_sign b)
      | (_, _) \<Rightarrow> NaN)"

text \<open>
  Line 144, \<open>std::chrono::minutes{1} * static_cast<float>(raw.edge_count) / interval\<close>:
  the product is a \<open>float\<close> count of minutes; for the quotient both durations are
  brought to \<open>float\<close> counts of ticks of \<open>clock\<close>, the minutes by a \<open>float\<close> product
  with the ticks of a minute (\<open>60000000 * clock_ticks_per_us\<close>), the interval by the
  conversion of its count; the quotient of the two counts is the value.
\<close>

definition pulses_per_minute :: "int \<Rightarrow> nat \<Rightarrow> int \<Rightarrow> float_value" where
  "pulses_per_minute ticks_per_us edges interval =
     float_divide
       (float_times
          (float_times (round_to_binary32 1) (round_to_binary32 (of_nat edges)))
          (round_to_binary32 (of_int (60000000 * ticks_per_us))))
       (round_to_binary32 (of_int interval))"

text \<open>
  \<open>failed\<close> is the component state that \<open>mark_failed()\<close> sets; \<open>published\<close> collects
  the arguments of \<open>publish_state\<close>, oldest first.
\<close>

record PulseCounterUlpSensor =
  config :: Config
  storage :: "UlpProgram option"
  last_time :: int
  failed :: bool
  published :: "float_value list"

definition mark_failed :: "PulseCounterUlpSensor \<Rightarrow> PulseCounterUlpSensor" where
  "mark_failed s = s\<lparr>failed := True\<rparr>"

definition publish_state :: "float_value \<Rightarrow> PulseCounterUlpSensor \<Rightarrow> PulseCounterUlpSensor" where
  "publish_state x s = s\<lparr>published := published s @ [x]\<rparr>"

text \<open>
  \<open>PulseCounterUlpSensor::setup\<close>; \<open>now\<close> is what \<open>clock::now()\<close> returns. On a
  wake-up the product \<open>state.run_count * state.mean_exec_time\<close> is a count of
  microseconds, at most \<open>65535 * 65535\<close>; it is taken without wrap-around, as in a
  count of 32 unsigned bits or more (\<open>dump_config\<close> prints the count of a
  \<open>microseconds\<close> with \<open>PRIu32\<close>), and converted to ticks of \<open>clock\<close>.
\<close>

definition sensor_setup ::
  "platform \<Rightarrow> int \<Rightarrow> PulseCounterUlpSensor \<Rightarrow> world \<Rightarrow> PulseCounterUlpSensor \<times> world" where
  "sensor_setup p now s w =
     (let w1 = do_call (Pin_setup (pin (config s))) w;
          (s1, w2) =
            (if esp_sleep_get_wakeup_cause p = ESP_SLEEP_WAKEUP_UNDEFINED then
               (let (h, w') = start p (config s) w1 in (s\<lparr>storage := h\<rparr>, w'))
             else
               (let s' = s\<lparr>storage := Some UlpProgram\<rparr>;
                    state = peek_state (vars w1)
                in (s'\<lparr>last_time :=
                         now - clock_ticks_per_us p * (uint (run_count state) * mean_exec_time state)\<rparr>,
                    w1)))
      in if storage s1 = None then (mark_failed s1, w2) else (s1, w2))"

text \<open>
  \<open>update\<close>. The quotient \<open>interval / raw.run_count\<close> is an integer division, which
  the code does not guard: with a zero divisor the program has no defined result (the
  ESP32 stops with an \<open>IntegerDivideByZero\<close> panic), and the model returns the fault.
  \<open>sdiv\<close> is the division of C++, truncating towards zero; \<open>duration_cast\<close> divides
  the ticks of the quotient by \<open>clock_ticks_per_us\<close>.
\<close>

datatype fault = IntegerDivideByZero

definition update ::
  "platform \<Rightarrow> int \<Rightarrow> PulseCounterUlpSensor \<Rightarrow> world \<Rightarrow> fault + PulseCounterUlpSensor \<times> world" where
  "update p now s w =
     (if storage s = None then Inr (s, w)
      else
        let (raw, v) = pop_state (vars w);
            w1 = w\<lparr>vars := v\<rparr>;
            interval = now - last_time s
        in if interval \<noteq> 0 then
             (if run_count raw = 0 then Inl IntegerDivideByZero
              else
                let w2 = w1\<lparr>vars := set_mean_exec_time
                                ((interval sdiv uint (run_count raw)) sdiv clock_ticks_per_us p)
                                (vars w1)\<rparr>;
                    value = pulses_per_minute (clock_ticks_per_us p) (unat (edge_count raw)) interval;
                    s1 = publish_state value s
                in Inr (s1\<lparr>last_time := now\<rparr>, w2))
           else Inr (s\<lparr>last_time := now\<rparr>, w1))"

text \<open>Successive ticks at the given times, with no ULP activity in between.\<close>

fun updates ::
  "platform \<Rightarrow> int list \<Rightarrow> PulseCounterUlpSensor \<Rightarrow> world \<Rightarrow> fault + PulseCounterUlpSensor \<times> world" where
  "updates p [] s w = Inr (s, w)"
| "updates p (now # nows) s w =
     (case update p now s w of
        Inl f \<Rightarrow> Inl f
      | Inr (s', w') \<Rightarrow> updates p nows s' w')"

section \<open>The earlier revision: \<open>UlpPulseCounterStorage\<close> and the total sensor\<close>

text \<open>
  The second variant of the file keeps a cumulative total. Its \<open>pulse_counter_t\<close> and
  \<open>timestamp_t\<close> are declared in the header, which is not among the sources:
  \<open>pulse_counter_t\<close> is taken as a signed integer type of \<open>bits\<close> bits, a parameter,
  and a \<open>timestamp_t\<close> is an \<open>int\<close>.
\<close>

definition to_pulse_counter_t :: "nat \<Rightarrow> u32 \<Rightarrow> int" where
  "to_pulse_counter_t bits x = signed_take_bit (bits - 1) (uint x)"

definition read_raw_value :: "nat \<Rightarrow> ulp_vars \<Rightarrow> int \<times> ulp_vars" where
  "read_raw_value bits v =
     (let count = to_pulse_counter_t bits (ulp_edge_count v)
      in (count, v\<lparr>ulp_edge_count := 0\<rparr>))"

text \<open>
  \<open>total_sensor\<close> tells whether a total sensor is configured (the pointer is not
  null); \<open>total_published\<close> collects what is published to it.
\<close>

record PulseCounterUlpSensor0 =
  last_time0 :: int
  current_total :: u32
  total_sensor :: bool
  published0 :: "float_value list"
  total_published :: "u32 list"

text \<open>\<open>update\<close> of the earlier revision; \<open>now\<close> is what \<open>millis()\<close> returns.\<close>

definition update0 ::
  "nat \<Rightarrow> int \<Rightarrow> PulseCounterUlpSensor0 \<Rightarrow> ulp_vars \<Rightarrow> PulseCounterUlpSensor0 \<times> ulp_vars" where
  "update0 bits now s v =
     (let (raw, v1) = read_raw_value bits v;
          interval = now - last_time0 s;
          s1 = (if last_time0 s \<noteq> 0
                then s\<lparr>published0 := published0 s @
                          [float_divide
                             (float_times (round_to_binary32 60000) (round_to_binary32 (of_int raw)))
                             (round_to_binary32 (of_int interval))]\<rparr>
                else s);
          s2 = (if total_sensor s1
                then (let t = current_total s1 + word_of_int raw
                      in s1\<lparr>current_total := t, total_published := total_published s1 @ [t]\<rparr>)
                else s1)
      in (s2\<lparr>last_time0 := now\<rparr>, v1))"

text \<open>
  A run of ticks of the earlier revision: before the tick at time \<open>now\<close> the ULP has
  counted \<open>n\<close> more edges.
\<close>

fun ticks0 ::
  "nat \<Rightarrow> (int \<times> u32) list \<Rightarrow> PulseCounterUlpSensor0 \<Rightarrow> ulp_vars \<Rightarrow> PulseCounterUlpSensor0 \<times> ulp_vars" where
  "ticks0 bits [] s v = (s, v)"
| "ticks0 bits ((now, n) # ts) s v =
     (let (s', v') = update0 bits now s (v\<lparr>ulp_edge_count := ulp_edge_count v + n\<rparr>)
      in ticks0 bits ts s' v')"

text \<open>The totals after each of a list of increments, from the total \<open>t\<close>.\<close>

fun running_totals :: "u32 \<Rightarrow> u32 list \<Rightarrow> u32 list" where
  "running_totals t [] = []"
| "running_totals t (x # xs) = (t + x) # running_totals (t + x) xs"

section \<open>Example inputs\<close>

text \<open>
  Concrete inputs at which the theorems below are instantiated: the RTC IO numbers of
  the ESP32's GPIOs (\<open>-1\<close> for a GPIO that is not an RTC IO), a platform with a
  nanosecond clock on which every call succeeds, and a sensor that has not been set up.
\<close>

definition esp32_rtc_io_num :: "nat \<Rightarrow> int" where
  "esp32_rtc_io_num g =
     (case map_of [(0, 11), (2, 12), (4, 10), (12, 15), (13, 14), (14, 16), (15, 13),
                   (25, 6), (26, 7), (27, 17), (32, 9), (33, 8), (34, 4), (35, 5),
                   (36, 0), (37, 1), (38, 2), (39, 3)] g of
        None \<Rightarrow> - 1
      | Some n \<Rightarrow> n)"

definition esp32 :: "esp_err_t \<Rightarrow> esp_err_t \<Rightarrow> esp_sleep_wakeup_cause_t \<Rightarrow> platform" where
  "esp32 load_result run_result cause =
     \<lparr>ulp_load_binary = load_result,
      ulp_run = run_result,
      rtc_io_number_get = esp32_rtc_io_num,
      rtc_gpio_is_valid_gpio = (\<lambda>g. 0 \<le> esp32_rtc_io_num g),
      esp_sleep_get_wakeup_cause = cause,
      clock_ticks_per_us = 1000\<rparr>"

definition zero_vars :: ulp_vars where
  "zero_vars =
     \<lparr>ulp_edge_count = 0, ulp_run_count = 0, ulp_debounce_counter = 0,
      ulp_debounce_max_count = 0, ulp_next_edge = 0, ulp_io_number = 0,
      ulp_mean_exec_time = 0\<rparr>"

definition boot_world :: world where
  "boot_world = \<lparr>vars = zero_vars, calls = []\<rparr>"

definition new_sensor :: "Config \<Rightarrow> PulseCounterUlpSensor" where
  "new_sensor cfg =
     \<lparr>config = cfg, storage = None, last_time = 0, failed = False, published = []\<rparr>"

definition new_sensor0 :: "bool \<Rightarrow> PulseCounterUlpSensor0" where
  "new_sensor0 with_total =
     \<lparr>last_time0 = 0, current_total = 0, total_sensor = with_total, published0 = [],
      total_published = []\<rparr>"

lemmas example_defs =
  esp32_def esp32_rtc_io_num_def zero_vars_def boot_world_def new_sensor_def new_sensor0_def

section \<open>Register width\<close>

lemma uint_ucast_16: "uint (ucast (x :: u32) :: u16) = uint x mod 65536"
  by (simp add: unsigned_ucast_eq take_bit_eq_mod)


lemma peek_state_fields:
  "edge_count (peek_state v) = ucast (ulp_edge_count v)"
  "run_count (peek_state v) = ucast (ulp_run_count v)"
  "mean_exec_time (peek_state v) = uint (ucast (ulp_mean_exec_time v) :: u16)"
  by (simp_all add: peek_state_def)

lemma uint_word_of_int_32: "uint (word_of_int d :: u32) = d mod 4294967296"
  by (simp add: uint_word_of_int take_bit_eq_mod)


lemma to_pulse_counter_t_small:
  "uint x < 2 ^ (bits - 1) \<Longrightarrow> to_pulse_counter_t bits x = uint x"
proof -
  assume small: "uint x < 2 ^ (bits - 1)"
  have "- (2 ^ (bits - 1)) \<le> (0 :: int)"
    by simp
  also have "0 \<le> uint x"
    by simp
  finally have "- (2 ^ (bits - 1)) \<le> uint x" .
  then show ?thesis
    unfolding to_pulse_counter_t_def using small by (rule signed_take_bit_int_eq_self)
qed







section \<open>Draining\<close>

text \<open>
  C3. \<open>pop_state\<close> returns the low 16 bits of \<open>ulp_edge_count\<close> and of
  \<open>ulp_run_count\<close> (what \<open>peek_state\<close> reads) and, in the same call, leaves the
  variables as they were but for these two, which are zero; popping again, with nothing
  written in between, returns the counts 0 and 0 and changes nothing. The earlier
  revision's \<open>read_raw_value\<close> returns the edge count as a \<open>pulse_counter_t\<close> (the
  count itself when it fits), clears the edge count alone, and returns 0 the second
  time.
\<close>

theorem pop_state_drains_both:
  "uint (edge_count (fst (pop_state v))) = uint (ulp_edge_count v) mod 65536
   \<and> uint (run_count (fst (pop_state v))) = uint (ulp_run_count v) mod 65536
   \<and> mean_exec_time (fst (pop_state v)) = uint (ulp_mean_exec_time v) mod 65536
   \<and> fst (pop_state v) = peek_state v
   \<and> snd (pop_state v) = v\<lparr>ulp_edge_count := 0, ulp_run_count := 0\<rparr>
   \<and> edge_count (fst (pop_state (snd (pop_state v)))) = 0
   \<and> run_count (fst (pop_state (snd (pop_state v)))) = 0
   \<and> snd (pop_state (snd (pop_state v))) = snd (pop_state v)
   \<and> fst (read_raw_value bits v) = signed_take_bit (bits - 1) (uint (ulp_edge_count v))
   \<and> (uint (ulp_edge_count v) < 2 ^ (bits - 1) \<longrightarrow>
        fst (read_raw_value bits v) = uint (ulp_edge_count v))
   \<and> snd (read_raw_value bits v) = v\<lparr>ulp_edge_count := 0\<rparr>
   \<and> fst (read_raw_value bits (snd (read_raw_value bits v))) = 0"
  by (simp add: pop_state_def peek_state_fields uint_ucast_16 read_raw_value_def
      to_pulse_counter_t_small)
     (simp add: to_pulse_counter_t_def)


theorem pop_state_drains_both_witness:
  "fst (pop_state (zero_vars\<lparr>ulp_edge_count := 120, ulp_run_count := 3000\<rparr>)) =
     \<lparr>edge_count = 120, run_count = 3000, mean_exec_time = 0\<rparr>
   \<and> snd (pop_state (zero_vars\<lparr>ulp_edge_count := 120, ulp_run_count := 3000\<rparr>)) = zero_vars
   \<and> fst (read_raw_value 16 (zero_vars\<lparr>ulp_edge_count := 120\<rparr>)) = 120"
proof -
  let ?v = "zero_vars\<lparr>ulp_edge_count := 120, ulp_run_count := 3000\<rparr>"
  let ?u = "zero_vars\<lparr>ulp_edge_count := 120\<rparr>"
  have small: "uint (ulp_edge_count ?u) < 2 ^ (16 - 1)"
    by simp
  have raw: "fst (read_raw_value 16 ?u) = 120"
    using pop_state_drains_both [of ?u 16] small by simp
  have pop: "fst (pop_state ?v) = peek_state ?v"
    "snd (pop_state ?v) = ?v\<lparr>ulp_edge_count := 0, ulp_run_count := 0\<rparr>"
    using pop_state_drains_both [of ?v 16] by simp_all
  from raw pop show ?thesis
    by (simp add: peek_state_def zero_vars_def)
qed


section \<open>Starting the ULP program\<close>

text \<open>
  C6. \<open>start\<close> returns the null pointer exactly when loading the binary fails or
  running the program fails; in every other case it returns a program.
\<close>

theorem start_fails_iff:
  "(fst (start p cfg w) = None) = (ulp_load_binary p \<noteq> ESP_OK \<or> ulp_run p \<noteq> ESP_OK)"
  by (simp add: start_def Let_def)

theorem start_fails_iff_witness:
  "fst (start (esp32 0 259 ESP_SLEEP_WAKEUP_UNDEFINED)
          \<lparr>pin = 4, debounce = 3, sleep_duration = 20000\<rparr> boot_world) = None
   \<and> fst (start (esp32 0 0 ESP_SLEEP_WAKEUP_UNDEFINED)
          \<lparr>pin = 4, debounce = 3, sleep_duration = 20000\<rparr> boot_world) \<noteq> None"
  using start_fails_iff
    [of "esp32 0 259 ESP_SLEEP_WAKEUP_UNDEFINED"
        "\<lparr>pin = 4, debounce = 3, sleep_duration = 20000\<rparr>" boot_world]
    start_fails_iff
    [of "esp32 0 0 ESP_SLEEP_WAKEUP_UNDEFINED"
        "\<lparr>pin = 4, debounce = 3, sleep_duration = 20000\<rparr>" boot_world]
  by (simp add: ESP_OK_def esp32_def)

section \<open>A failed start\<close>

lemma update_without_storage: "storage s = None \<Longrightarrow> update p now s w = Inr (s, w)"
  by (simp add: update_def)

lemma updates_without_storage: "storage s = None \<Longrightarrow> updates p nows s w = Inr (s, w)"
  by (induction nows) (simp_all add: update_without_storage)

lemma cold_setup:
  assumes "esp_sleep_get_wakeup_cause p = ESP_SLEEP_WAKEUP_UNDEFINED"
  shows "sensor_setup p now s w =
     (let (h, w') = start p (config s) (do_call (Pin_setup (pin (config s))) w)
      in (if h = None then mark_failed (s\<lparr>storage := h\<rparr>) else s\<lparr>storage := h\<rparr>, w'))"
  using assms by (simp add: sensor_setup_def Let_def split: prod.splits)

text \<open>
  C5. On a boot that is not a wake-up, when loading the binary or running the program
  fails, \<open>setup\<close> leaves the sensor marked failed and without a program, having
  published nothing; from then on every \<open>update\<close>, at any time and whatever the
  shared variables hold, returns the sensor and the world as they were: it reads and
  writes no variable and publishes nothing, and so does any run of updates.
\<close>

theorem failed_start_is_terminal:
  assumes cold: "esp_sleep_get_wakeup_cause p = ESP_SLEEP_WAKEUP_UNDEFINED"
    and fails: "ulp_load_binary p \<noteq> ESP_OK \<or> ulp_run p \<noteq> ESP_OK"
    and res: "sensor_setup p now s w = (s', w')"
  shows "failed s' \<and> storage s' = None \<and> published s' = published s
         \<and> (\<forall>t w''. update p t s' w'' = Inr (s', w''))
         \<and> (\<forall>ts w''. updates p ts s' w'' = Inr (s', w''))"
proof -
  obtain h w1 where st: "start p (config s) (do_call (Pin_setup (pin (config s))) w) = (h, w1)"
    by (cases "start p (config s) (do_call (Pin_setup (pin (config s))) w)")
  have "fst (start p (config s) (do_call (Pin_setup (pin (config s))) w)) = None"
    using fails by (simp add: start_def Let_def)
  with st have h: "h = None" by simp
  from res cold st h have s': "s' = mark_failed (s\<lparr>storage := None\<rparr>)"
    by (simp add: cold_setup)
  then have none: "storage s' = None" by (simp add: mark_failed_def)
  from s' have "failed s'" "published s' = published s" by (simp_all add: mark_failed_def)
  with none show ?thesis
    by (simp add: update_without_storage updates_without_storage)
qed

theorem failed_start_is_terminal_witness:
  "failed (fst (sensor_setup (esp32 258 0 ESP_SLEEP_WAKEUP_UNDEFINED) 5000
                  (new_sensor \<lparr>pin = 4, debounce = 3, sleep_duration = 20000\<rparr>) boot_world))
   \<and> published (fst (sensor_setup (esp32 258 0 ESP_SLEEP_WAKEUP_UNDEFINED) 5000
                  (new_sensor \<lparr>pin = 4, debounce = 3, sleep_duration = 20000\<rparr>) boot_world)) = []
   \<and> updates (esp32 258 0 ESP_SLEEP_WAKEUP_UNDEFINED) [6000, 7000, 8000]
        (fst (sensor_setup (esp32 258 0 ESP_SLEEP_WAKEUP_UNDEFINED) 5000
                  (new_sensor \<lparr>pin = 4, debounce = 3, sleep_duration = 20000\<rparr>) boot_world))
        (boot_world\<lparr>vars := zero_vars\<lparr>ulp_edge_count := 7, ulp_run_count := 9\<rparr>\<rparr>)
     = Inr (fst (sensor_setup (esp32 258 0 ESP_SLEEP_WAKEUP_UNDEFINED) 5000
                  (new_sensor \<lparr>pin = 4, debounce = 3, sleep_duration = 20000\<rparr>) boot_world),
            boot_world\<lparr>vars := zero_vars\<lparr>ulp_edge_count := 7, ulp_run_count := 9\<rparr>\<rparr>)"
proof -
  let ?p = "esp32 258 0 ESP_SLEEP_WAKEUP_UNDEFINED"
  let ?r = "sensor_setup ?p 5000
              (new_sensor \<lparr>pin = 4, debounce = 3, sleep_duration = 20000\<rparr>) boot_world"
  have cold: "esp_sleep_get_wakeup_cause ?p = ESP_SLEEP_WAKEUP_UNDEFINED"
    by (simp add: esp32_def)
  have fails: "ulp_load_binary ?p \<noteq> ESP_OK \<or> ulp_run ?p \<noteq> ESP_OK"
    by (simp add: esp32_def ESP_OK_def)
  have res: "?r = (fst ?r, snd ?r)"
    by simp
  show ?thesis
    using failed_start_is_terminal [OF cold fails res] by (simp add: new_sensor_def)
qed

section \<open>Waking up from sleep\<close>



section \<open>The cumulative total\<close>

lemma update0_with_total:
  assumes "total_sensor s"
  shows "current_total (fst (update0 bits now s v)) =
           current_total s + word_of_int (fst (read_raw_value bits v))"
    and "total_published (fst (update0 bits now s v)) =
           total_published s @ [current_total (fst (update0 bits now s v))]"
    and "total_sensor (fst (update0 bits now s v))"
    and "ulp_edge_count (snd (update0 bits now s v)) = 0"
  using assms by (simp_all add: update0_def read_raw_value_def Let_def)

lemma ticks0_totals:
  "total_sensor s \<Longrightarrow> ulp_edge_count v = 0 \<Longrightarrow>
   total_published (fst (ticks0 bits ts s v)) =
     total_published s @
     running_totals (current_total s) (map (\<lambda>(now, n). word_of_int (to_pulse_counter_t bits n)) ts)"
proof (induction ts arbitrary: s v)
  case Nil
  then show ?case by simp
next
  case (Cons t ts)
  obtain now n where t: "t = (now, n)" by (cases t)
  let ?v = "v\<lparr>ulp_edge_count := ulp_edge_count v + n\<rparr>"
  let ?s' = "fst (update0 bits now s ?v)"
  let ?v' = "snd (update0 bits now s ?v)"
  have raw: "fst (read_raw_value bits ?v) = to_pulse_counter_t bits n"
    using Cons.prems(2) by (simp add: read_raw_value_def)
  have step: "ticks0 bits (t # ts) s v = ticks0 bits ts ?s' ?v'"
    by (simp add: t split: prod.splits)
  have tot: "current_total ?s' = current_total s + word_of_int (to_pulse_counter_t bits n)"
    using update0_with_total(1) [OF Cons.prems(1)] raw by simp
  have pub: "total_published ?s' = total_published s @ [current_total ?s']"
    using update0_with_total(2) [OF Cons.prems(1)] by simp
  have "total_published (fst (ticks0 bits ts ?s' ?v')) =
          total_published ?s' @
          running_totals (current_total ?s')
            (map (\<lambda>(now, n). word_of_int (to_pulse_counter_t bits n)) ts)"
    using Cons.IH update0_with_total(3,4) [OF Cons.prems(1)] by simp
  with step tot pub show ?case
    by (simp add: t)
qed

text \<open>
  C4. In the revision that has a total sensor: when it is configured, a tick adds the
  value that \<open>read_raw_value\<close> drained to \<open>current_total_\<close> and publishes the new
  total; over a run of ticks that starts with a drained edge count, the published
  totals are the running sums of the drained counts. Draining 10, 15 and 7 from a
  total of 0 publishes 10, 25 and 32.
\<close>

theorem total_accumulates:
  assumes "total_sensor s"
  shows "current_total (fst (update0 bits now s v)) =
           current_total s + word_of_int (fst (read_raw_value bits v))
         \<and> total_published (fst (update0 bits now s v)) =
           total_published s @ [current_total (fst (update0 bits now s v))]
         \<and> (ulp_edge_count v = 0 \<longrightarrow>
             total_published (fst (ticks0 bits ts s v)) =
               total_published s @
               running_totals (current_total s)
                 (map (\<lambda>(now, n). word_of_int (to_pulse_counter_t bits n)) ts))"
  using assms update0_with_total(1,2) [OF assms] ticks0_totals [OF assms] by simp

theorem total_accumulates_witness:
  "total_published
     (fst (ticks0 16 [(1000, 10), (2000, 15), (3000, 7)] (new_sensor0 True) zero_vars))
   = [10, 25, 32]"
proof -
  have h: "total_sensor (new_sensor0 True)"
    by (simp add: new_sensor0_def)
  have z: "ulp_edge_count zero_vars = 0"
    by (simp add: zero_vars_def)
  have c: "to_pulse_counter_t 16 10 = 10" "to_pulse_counter_t 16 15 = 15" "to_pulse_counter_t 16 7 = 7"
    by (simp_all add: to_pulse_counter_t_def signed_take_bit_eq_take_bit_minus take_bit_eq_mod bit_iff_odd)
  show ?thesis
    using total_accumulates [OF h, of 16 0 zero_vars "[(1000, 10), (2000, 15), (3000, 7)]"] z
    by (simp add: c new_sensor0_def)
qed

section \<open>The first estimate of the mean execution time\<close>

lemma start_ok_vars:
  assumes "fst (start p cfg w) = Some h"
  shows "vars (snd (start p cfg w)) =
           (vars w)\<lparr>ulp_edge_count := 0, ulp_run_count := 0, ulp_debounce_counter := 3,
                    ulp_debounce_max_count := ucast (debounce cfg), ulp_next_edge := 0,
                    ulp_io_number := word_of_int (rtc_io_number_get p (pin cfg)),
                    ulp_mean_exec_time := word_of_int (sleep_duration cfg)\<rparr>"
  using assms by (simp add: start_def Let_def do_call_def split: if_splits)

lemma mod_32_mod_16: "(d :: int) mod 4294967296 mod 65536 = d mod 65536"
  by (rule mod_mod_cancel) simp

lemma warm_setup_last_time:
  "esp_sleep_get_wakeup_cause p \<noteq> ESP_SLEEP_WAKEUP_UNDEFINED \<Longrightarrow>
   last_time (fst (sensor_setup p now s w)) =
     now - clock_ticks_per_us p *
           (uint (run_count (peek_state (vars w))) * mean_exec_time (peek_state (vars w)))"
  by (simp add: sensor_setup_def Let_def do_call_def)

text \<open>
  C10, as amended. A successful \<open>start\<close> writes the sleep duration, in microseconds,
  to \<open>ulp_mean_exec_time\<close> (a 32-bit variable). A wake-up boot that finds the variable
  as \<open>start\<close> left it, whatever the ULP did to the others, reads its low 16 bits: the
  estimate for one iteration is the sleep duration modulo 65536 microseconds, and
  \<open>last_time_\<close> is backdated by the run count times that. The estimate is the sleep
  duration itself when that is below 65536 microseconds.
\<close>

theorem start_seeds_mean_exec_time:
  assumes ok: "fst (start p cfg w) = Some h"
    and kept: "ulp_mean_exec_time v = ulp_mean_exec_time (vars (snd (start p cfg w)))"
    and warm: "esp_sleep_get_wakeup_cause p' \<noteq> ESP_SLEEP_WAKEUP_UNDEFINED"
  shows "uint (ulp_mean_exec_time (vars (snd (start p cfg w)))) = sleep_duration cfg mod 4294967296
         \<and> mean_exec_time (peek_state v) = sleep_duration cfg mod 65536
         \<and> last_time (fst (sensor_setup p' now s (w'\<lparr>vars := v\<rparr>))) =
             now - clock_ticks_per_us p' *
                   (uint (run_count (peek_state v)) * (sleep_duration cfg mod 65536))
         \<and> (0 \<le> sleep_duration cfg \<and> sleep_duration cfg < 65536 \<longrightarrow>
             mean_exec_time (peek_state v) = sleep_duration cfg)"
proof -
  have reg: "ulp_mean_exec_time (vars (snd (start p cfg w))) = word_of_int (sleep_duration cfg)"
    using start_ok_vars [OF ok] by simp
  then have a: "uint (ulp_mean_exec_time (vars (snd (start p cfg w)))) =
                  sleep_duration cfg mod 4294967296"
    by (simp add: uint_word_of_int_32)
  have b: "mean_exec_time (peek_state v) = sleep_duration cfg mod 65536"
    using kept reg by (simp add: peek_state_fields uint_ucast_16 uint_word_of_int_32 mod_32_mod_16)
  have c: "last_time (fst (sensor_setup p' now s (w'\<lparr>vars := v\<rparr>))) =
             now - clock_ticks_per_us p' *
                   (uint (run_count (peek_state v)) * (sleep_duration cfg mod 65536))"
    using warm_setup_last_time [OF warm, of now s "w'\<lparr>vars := v\<rparr>"] b by simp
  from a b c show ?thesis by simp
qed

theorem start_seeds_mean_exec_time_witness:
  "last_time
     (fst (sensor_setup (esp32 0 0 ESP_SLEEP_WAKEUP_TIMER) 5000000000
        (new_sensor \<lparr>pin = 4, debounce = 3, sleep_duration = 20000\<rparr>)
        (boot_world\<lparr>vars :=
           (vars (snd (start (esp32 0 0 ESP_SLEEP_WAKEUP_UNDEFINED)
                         \<lparr>pin = 4, debounce = 3, sleep_duration = 20000\<rparr> boot_world)))
           \<lparr>ulp_run_count := 10\<rparr>\<rparr>)))
   = 5000000000 - 1000 * (10 * 20000)"
proof -
  let ?p = "esp32 0 0 ESP_SLEEP_WAKEUP_UNDEFINED"
  let ?p' = "esp32 0 0 ESP_SLEEP_WAKEUP_TIMER"
  let ?cfg = "\<lparr>pin = 4, debounce = 3, sleep_duration = 20000\<rparr>"
  let ?v = "(vars (snd (start ?p ?cfg boot_world)))\<lparr>ulp_run_count := 10\<rparr>"
  have ok: "fst (start ?p ?cfg boot_world) = Some UlpProgram"
    by (simp add: start_def esp32_def ESP_OK_def Let_def)
  have kept: "ulp_mean_exec_time ?v = ulp_mean_exec_time (vars (snd (start ?p ?cfg boot_world)))"
    by simp
  have warm: "esp_sleep_get_wakeup_cause ?p' \<noteq> ESP_SLEEP_WAKEUP_UNDEFINED"
    by (simp add: esp32_def)
  have tpu: "clock_ticks_per_us ?p' = 1000"
    by (simp add: esp32_def)
  have rc: "uint (run_count (peek_state ?v)) = 10"
    by (simp add: peek_state_fields)
  show ?thesis
    using start_seeds_mean_exec_time [OF ok kept warm, of 5000000000 "new_sensor ?cfg" boot_world]
    by (simp add: tpu rc)
qed

text \<open>
  C10, as stated, fails for a sleep duration of 100 ms: \<open>start\<close> succeeds, the
  wake-up boot reads an estimate of 34464 microseconds (100000 modulo 65536), and after
  10 iterations of the ULP program \<open>last_time_\<close> is backdated by 344.64 ms, not by the
  1000 ms that ten wake periods give.
\<close>

theorem wake_period_estimate_counterexample:
  "fst (start (esp32 0 0 ESP_SLEEP_WAKEUP_UNDEFINED)
          \<lparr>pin = 4, debounce = 3, sleep_duration = 100000\<rparr> boot_world) = Some UlpProgram
   \<and> mean_exec_time
        (peek_state (vars (snd (start (esp32 0 0 ESP_SLEEP_WAKEUP_UNDEFINED)
                                  \<lparr>pin = 4, debounce = 3, sleep_duration = 100000\<rparr> boot_world))))
       = 34464
   \<and> last_time
       (fst (sensor_setup (esp32 0 0 ESP_SLEEP_WAKEUP_TIMER) 5000000000
          (new_sensor \<lparr>pin = 4, debounce = 3, sleep_duration = 100000\<rparr>)
          (boot_world\<lparr>vars :=
             (vars (snd (start (esp32 0 0 ESP_SLEEP_WAKEUP_UNDEFINED)
                           \<lparr>pin = 4, debounce = 3, sleep_duration = 100000\<rparr> boot_world)))
             \<lparr>ulp_run_count := 10\<rparr>\<rparr>)))
       = 5000000000 - 1000 * (10 * 34464)
   \<and> last_time
       (fst (sensor_setup (esp32 0 0 ESP_SLEEP_WAKEUP_TIMER) 5000000000
          (new_sensor \<lparr>pin = 4, debounce = 3, sleep_duration = 100000\<rparr>)
          (boot_world\<lparr>vars :=
             (vars (snd (start (esp32 0 0 ESP_SLEEP_WAKEUP_UNDEFINED)
                           \<lparr>pin = 4, debounce = 3, sleep_duration = 100000\<rparr> boot_world)))
             \<lparr>ulp_run_count := 10\<rparr>\<rparr>)))
       \<noteq> 5000000000 - 1000 * (10 * 100000)"
  by (simp add: start_def sensor_setup_def peek_state_def do_call_def Let_def ESP_OK_def
      example_defs)

section \<open>A tick\<close>

text \<open>
  With a program and no time elapsed, \<open>update\<close> drains the counters and publishes
  nothing; no division is reached.
\<close>

lemma update_zero_interval:
  assumes "storage s \<noteq> None" and "now = last_time s"
  shows "update p now s w = Inr (s\<lparr>last_time := now\<rparr>, w\<lparr>vars := snd (pop_state (vars w))\<rparr>)"
proof -
  from assms(1) obtain h where "storage s = Some h" by (cases "storage s") auto
  with assms(2) show ?thesis
    by (simp add: update_def Let_def split: prod.splits)
qed

text \<open>
  With a program, time elapsed and a drained run count that is not zero, \<open>update\<close>
  stores \<open>interval / run_count\<close>, in microseconds and truncated to 16 bits, as the new
  mean execution time, and publishes the drained edge count per minute.
\<close>

lemma update_publishes_rate:
  assumes "storage s \<noteq> None" and "now \<noteq> last_time s"
    and "run_count (peek_state (vars w)) \<noteq> 0"
  shows "update p now s w =
           Inr (s\<lparr>published := published s @
                      [pulses_per_minute (clock_ticks_per_us p)
                         (unat (edge_count (peek_state (vars w)))) (now - last_time s)],
                    last_time := now\<rparr>,
                w\<lparr>vars := set_mean_exec_time
                             (((now - last_time s) sdiv uint (run_count (peek_state (vars w))))
                                sdiv clock_ticks_per_us p)
                             (snd (pop_state (vars w)))\<rparr>)"
proof -
  from assms(1) obtain h where "storage s = Some h" by (cases "storage s") auto
  with assms(2,3) show ?thesis
    by (simp add: update_def Let_def pop_state_def publish_state_def)
qed

text \<open>
  With a nanosecond clock, 120 edges in 60 s are published as 120 pulses per minute;
  3 edges in 60 s are published as 12582911 / 4194304 (2.99999976...), since the ticks
  of a minute are rounded before the division.
\<close>

lemma round_to_binary32_examples:
  "round_to_binary32 16777217 = Finite 16777216"
  "round_to_binary32 16777219 = Finite 16777220"
  "round_to_binary32 60000000000 = Finite 60000002048"
  "round_to_binary32 (1 / 3) = Finite (11184811 / 33554432)"
  "round_to_binary32 (2 ^ 128 - 2 ^ 103) = PlusInfinity"
  "round_to_binary32 (1 / 2 ^ 150) = Finite 0"
  by code_simp+

lemma pulses_per_minute_120: "pulses_per_minute 1000 120 60000000000 = Finite 120"
  by code_simp

lemma pulses_per_minute_3: "pulses_per_minute 1000 3 60000000000 = Finite (12582911 / 4194304)"
  by code_simp

lemma rate_of_120_edges_in_60_seconds:
  "update (esp32 0 0 ESP_SLEEP_WAKEUP_TIMER) 60000000000
     \<lparr>config = \<lparr>pin = 4, debounce = 3, sleep_duration = 20000\<rparr>, storage = Some UlpProgram,
      last_time = 0, failed = False, published = []\<rparr>
     \<lparr>vars = zero_vars\<lparr>ulp_edge_count := 120, ulp_run_count := 3000\<rparr>, calls = []\<rparr>
   = Inr (\<lparr>config = \<lparr>pin = 4, debounce = 3, sleep_duration = 20000\<rparr>,
           storage = Some UlpProgram, last_time = 60000000000, failed = False,
           published = [Finite 120]\<rparr>,
          \<lparr>vars = zero_vars\<lparr>ulp_mean_exec_time := 20000\<rparr>, calls = []\<rparr>)"
  by (simp add: update_def pop_state_def peek_state_def set_mean_exec_time_def publish_state_def
      pulses_per_minute_120 signed_divide_int_def Let_def example_defs)

text \<open>
  C1. The division \<open>interval / raw.run_count\<close> is not guarded. With a program and
  time elapsed, a tick that drains a run count whose low 16 bits are zero divides by
  zero: \<open>update\<close> ends in the fault, with no new estimate written and nothing published.
\<close>

theorem update_divides_by_zero_run_count:
  assumes "storage s \<noteq> None" and "now \<noteq> last_time s"
    and "uint (ulp_run_count (vars w)) mod 65536 = 0"
  shows "update p now s w = Inl IntegerDivideByZero"
proof -
  have "uint (run_count (peek_state (vars w))) = 0"
    using assms(3) by (simp add: peek_state_fields uint_ucast_16)
  then have "run_count (peek_state (vars w)) = 0"
    by (simp add: uint_0_iff)
  moreover from assms(1) obtain h where "storage s = Some h" by (cases "storage s") auto
  ultimately show ?thesis
    using assms(2) by (simp add: update_def Let_def pop_state_def)
qed

theorem update_divides_by_zero_run_count_witness:
  "update (esp32 0 0 ESP_SLEEP_WAKEUP_UNDEFINED) 6000
     (fst (sensor_setup (esp32 0 0 ESP_SLEEP_WAKEUP_UNDEFINED) 5000
             (new_sensor \<lparr>pin = 4, debounce = 3, sleep_duration = 20000\<rparr>) boot_world))
     (snd (sensor_setup (esp32 0 0 ESP_SLEEP_WAKEUP_UNDEFINED) 5000
             (new_sensor \<lparr>pin = 4, debounce = 3, sleep_duration = 20000\<rparr>) boot_world))
   = Inl IntegerDivideByZero"
proof -
  let ?p = "esp32 0 0 ESP_SLEEP_WAKEUP_UNDEFINED"
  let ?r = "sensor_setup ?p 5000
              (new_sensor \<lparr>pin = 4, debounce = 3, sleep_duration = 20000\<rparr>) boot_world"
  have r: "storage (fst ?r) \<noteq> None" "(6000 :: int) \<noteq> last_time (fst ?r)"
    "uint (ulp_run_count (vars (snd ?r))) mod 65536 = 0"
    by (simp_all add: sensor_setup_def start_def do_call_def Let_def ESP_OK_def example_defs)
  show ?thesis
    using update_divides_by_zero_run_count [OF r] .
qed

text \<open>
  C8. A tick 60 s after the last one that drains 120 edges and a run count of zero
  publishes no rate: \<open>update\<close> ends in the division fault before it reaches
  \<open>publish_state\<close>.
\<close>

theorem rate_not_published_on_zero_run_count:
  "update (esp32 0 0 ESP_SLEEP_WAKEUP_TIMER) 60000000000
     \<lparr>config = \<lparr>pin = 4, debounce = 3, sleep_duration = 20000\<rparr>, storage = Some UlpProgram,
      last_time = 0, failed = False, published = []\<rparr>
     \<lparr>vars = zero_vars\<lparr>ulp_edge_count := 120, ulp_run_count := 0\<rparr>, calls = []\<rparr>
   = Inl IntegerDivideByZero"
  by (simp add: update_def pop_state_def peek_state_def Let_def example_defs)

section \<open>A pin that is not an RTC IO\<close>

text \<open>
  C2. When the pin is not a valid RTC GPIO and loading and running succeed, \<open>start\<close>
  logs the error and goes on: it writes the shared variables (the IO number being
  whatever \<open>rtc_io_number_get\<close> returned), configures the pin, runs the program and
  returns it.
\<close>

theorem start_continues_on_invalid_pin:
  assumes "\<not> rtc_gpio_is_valid_gpio p (pin cfg)"
    and "ulp_load_binary p = ESP_OK" and "ulp_run p = ESP_OK"
  shows "fst (start p cfg w) = Some UlpProgram
         \<and> calls (snd (start p cfg w)) =
             calls w @
             [Ulp_load_binary,
              ESP_LOGE ''GPIO used for pulse counting must be an RTC IO'',
              Rtc_gpio_init (pin cfg),
              Rtc_gpio_set_direction_input_only (pin cfg),
              Rtc_gpio_hold_en (pin cfg),
              Ulp_set_wakeup_period 0 (word_of_int (sleep_duration cfg)),
              Ulp_run]
         \<and> ulp_io_number (vars (snd (start p cfg w))) = word_of_int (rtc_io_number_get p (pin cfg))
         \<and> ulp_edge_count (vars (snd (start p cfg w))) = 0
         \<and> ulp_debounce_max_count (vars (snd (start p cfg w))) = ucast (debounce cfg)"
  using assms by (simp add: start_def Let_def do_call_def)

theorem start_continues_on_invalid_pin_witness:
  "fst (start (esp32 0 0 ESP_SLEEP_WAKEUP_UNDEFINED)
          \<lparr>pin = 5, debounce = 3, sleep_duration = 20000\<rparr> boot_world) = Some UlpProgram
   \<and> ulp_io_number (vars (snd (start (esp32 0 0 ESP_SLEEP_WAKEUP_UNDEFINED)
          \<lparr>pin = 5, debounce = 3, sleep_duration = 20000\<rparr> boot_world))) = 4294967295
   \<and> calls (snd (start (esp32 0 0 ESP_SLEEP_WAKEUP_UNDEFINED)
          \<lparr>pin = 5, debounce = 3, sleep_duration = 20000\<rparr> boot_world)) =
       [Ulp_load_binary,
        ESP_LOGE ''GPIO used for pulse counting must be an RTC IO'',
        Rtc_gpio_init 5,
        Rtc_gpio_set_direction_input_only 5,
        Rtc_gpio_hold_en 5,
        Ulp_set_wakeup_period 0 20000,
        Ulp_run]"
proof -
  let ?p = "esp32 0 0 ESP_SLEEP_WAKEUP_UNDEFINED"
  let ?cfg = "\<lparr>pin = 5, debounce = 3, sleep_duration = 20000\<rparr>"
  have h: "\<not> rtc_gpio_is_valid_gpio ?p (pin ?cfg)" "ulp_load_binary ?p = ESP_OK"
    "ulp_run ?p = ESP_OK"
    by (simp_all add: esp32_def esp32_rtc_io_num_def ESP_OK_def)
  have n: "rtc_io_number_get ?p 5 = - 1"
    by (simp add: esp32_def esp32_rtc_io_num_def)
  show ?thesis
    using start_continues_on_invalid_pin [OF h, of boot_world] by (simp add: n boot_world_def)
qed

end
